theory Spec2Isabelle
  imports Complex_Main
begin

section \<open>Values crossing the pool boundary\<close>

text \<open>
  Task payloads and results are typed \<open>any\<close> in the source. They are modelled by a small
  universe of JavaScript values, enough to write the result objects the worker builds
  (\<open>{ stopped: true, timestamp }\<close>, \<open>{ cleaned: true }\<close>, the status object).
\<close>

datatype jsval =
    JUndefined
  | JBool bool
  | JNum real
  | JStr string
  | JObj "(string \<times> jsval) list"

text \<open>
  A thrown value. \<open>NewError m\<close> is \<open>new Error(m)\<close> built by the code of
  \<open>trainingWorker.ts\<close> itself (pool or worker message handler); \<open>ExecutorThrown m\<close> is
  whatever \<open>performRealTraining\<close>, \<open>evaluateModel\<close>, \<open>predictText\<close> or \<open>cleanup\<close>
  raised, with \<open>m\<close> its \<open>.message\<close>.
\<close>

datatype thrown = NewError string | ExecutorThrown string

fun thrown_message :: "thrown \<Rightarrow> string" where
  "thrown_message (NewError m) = m"
| "thrown_message (ExecutorThrown m) = m"

datatype WorkerMessageType = TRAIN | EVALUATE | PREDICT | STOP | STATUS | CLEANUP

text \<open>The string value of each member of the enum \<open>WorkerMessageType\<close>.\<close>

fun type_string :: "WorkerMessageType \<Rightarrow> string" where
  "type_string TRAIN = ''train''"
| "type_string EVALUATE = ''evaluate''"
| "type_string PREDICT = ''predict''"
| "type_string STOP = ''stop''"
| "type_string STATUS = ''status''"
| "type_string CLEANUP = ''cleanup''"

text \<open>Interface \<open>WorkerMessage\<close>: \<open>{ id, type, data, timestamp }\<close> (pool to worker).\<close>

record WorkerMessage =
  wm_id :: string
  wm_type :: WorkerMessageType
  wm_data :: jsval
  wm_timestamp :: int

text \<open>
  Interface \<open>WorkerMetrics\<close>. Counters are natural numbers, times are integer
  milliseconds, CPU seconds and megabytes are reals.
\<close>

record WorkerMetrics =
  workerId :: string
  cpuUsage :: real
  memoryUsage :: real
  messageLatency :: int
  tasksCompleted :: nat
  tasksFailed :: nat
  uptime :: int
  lastActivity :: int

text \<open>
  What a worker posts to the pool. \<open>Response\<close> is a \<open>WorkerResponse\<close>
  \<open>{ id, success, data?, error?, timestamp }\<close>. A \<open>WorkerProgressUpdate\<close>
  \<open>{ id, type, data, timestamp }\<close> is sent by \<open>sendProgressUpdate\<close>; the one of type
  \<open>'metrics'\<close> always carries the complete \<open>WorkerMetrics\<close> object built in
  \<open>startMonitoring\<close>, so it has a constructor of its own.
\<close>

datatype update_type = PROGRESS | CHECKPOINT | ERROR | COMPLETE | READY

datatype WorkerOutMessage =
    Response string bool jsval "string option" int
  | ProgressUpdate string update_type jsval int
  | MetricsUpdate string WorkerMetrics int

fun out_id :: "WorkerOutMessage \<Rightarrow> string" where
  "out_id (Response i _ _ _ _) = i"
| "out_id (ProgressUpdate i _ _ _) = i"
| "out_id (MetricsUpdate i _ _) = i"

fun out_timestamp :: "WorkerOutMessage \<Rightarrow> int" where
  "out_timestamp (Response _ _ _ _ t) = t"
| "out_timestamp (ProgressUpdate _ _ _ t) = t"
| "out_timestamp (MetricsUpdate _ _ t) = t"

text \<open>
  \<open>message.success\<close>, \<open>message.data\<close> and \<open>message.error\<close> as the completion branch of
  \<open>handleWorkerMessage\<close> reads them: a progress update has no \<open>success\<close> and no
  \<open>error\<close> property, so they read as \<open>undefined\<close>.
\<close>

fun out_success :: "WorkerOutMessage \<Rightarrow> bool" where
  "out_success (Response _ ok _ _ _) = ok"
| "out_success _ = False"

fun out_data :: "WorkerOutMessage \<Rightarrow> jsval" where
  "out_data (Response _ _ d _ _) = d"
| "out_data (ProgressUpdate _ _ d _) = d"
| "out_data (MetricsUpdate _ _ _) = JUndefined"

fun out_error :: "WorkerOutMessage \<Rightarrow> string option" where
  "out_error (Response _ _ _ e _) = e"
| "out_error _ = None"

text \<open>\<open>message.error || 'Unknown error'\<close>: \<open>undefined\<close> and the empty string are falsy.\<close>

fun error_or_unknown :: "string option \<Rightarrow> string" where
  "error_or_unknown None = ''Unknown error''"
| "error_or_unknown (Some e) = (if e = [] then ''Unknown error'' else e)"

section \<open>JavaScript containers\<close>

text \<open>
  \<open>Array.prototype.findIndex\<close>: the index of the first element satisfying the predicate,
  or \<open>-1\<close>.
\<close>

fun findIndex :: "('a \<Rightarrow> bool) \<Rightarrow> 'a list \<Rightarrow> int" where
  "findIndex P [] = - 1"
| "findIndex P (x # xs) =
     (if P x then 0
      else (let i = findIndex P xs in if i = - 1 then - 1 else i + 1))"

text \<open>\<open>xs.splice(i, 1)\<close> and \<open>xs.splice(i, 0, x)\<close> for an index \<open>i \<ge> 0\<close>.\<close>

definition splice_remove :: "int \<Rightarrow> 'a list \<Rightarrow> 'a list" where
  "splice_remove i xs = take (nat i) xs @ drop (nat i + 1) xs"

definition splice_insert :: "int \<Rightarrow> 'a \<Rightarrow> 'a list \<Rightarrow> 'a list" where
  "splice_insert i x xs = take (nat i) xs @ [x] @ drop (nat i) xs"

text \<open>
  A \<open>Set<string>\<close> keeps insertion order, and \<open>values().next().value\<close> is its oldest
  member: a list without duplicates, new members at the end.
\<close>

definition set_add :: "'a \<Rightarrow> 'a list \<Rightarrow> 'a list" where
  "set_add x xs = (if x \<in> set xs then xs else xs @ [x])"

definition set_delete :: "'a \<Rightarrow> 'a list \<Rightarrow> 'a list" where
  "set_delete x xs = removeAll x xs"

text \<open>
  A \<open>Map<string, V>\<close> as an association list in insertion order: \<open>set\<close> on a present key
  keeps its place, \<open>get\<close> is \<open>map_of\<close>.
\<close>

fun map_set :: "'k \<Rightarrow> 'v \<Rightarrow> ('k \<times> 'v) list \<Rightarrow> ('k \<times> 'v) list" where
  "map_set k v [] = [(k, v)]"
| "map_set k v (p # ps) = (if fst p = k then (k, v) # ps else p # map_set k v ps)"

definition map_delete :: "'k \<Rightarrow> ('k \<times> 'v) list \<Rightarrow> ('k \<times> 'v) list" where
  "map_delete k ps = filter (\<lambda>p. fst p \<noteq> k) ps"

section \<open>JavaScript numbers\<close>

text \<open>
  A value of type \<open>number\<close>: a finite number, an infinity or \<open>NaN\<close> (rounding is not
  modelled). \<open>parseInt\<close> gives an integer, or \<open>NaN\<close> for text that does not start with
  digits. \<open>js_less\<close> is \<open><\<close> on numbers (\<open>a > b\<close> is \<open>js_less b a\<close>): every comparison
  with \<open>NaN\<close> is false. \<open>to_number\<close> converts a property that may be \<open>undefined\<close>
  (\<open>None\<close>) for a comparison: \<open>undefined\<close> becomes \<open>NaN\<close>.
\<close>

datatype jsnum = Fin real | PosInf | NegInf | NaN

fun js_less :: "jsnum \<Rightarrow> jsnum \<Rightarrow> bool" where
  "js_less NaN y = False"
| "js_less x NaN = False"
| "js_less (Fin a) (Fin b) = (a < b)"
| "js_less (Fin a) PosInf = True"
| "js_less (Fin a) NegInf = False"
| "js_less PosInf y = False"
| "js_less NegInf NegInf = False"
| "js_less NegInf y = True"

fun to_number :: "jsnum option \<Rightarrow> jsnum" where
  "to_number None = NaN"
| "to_number (Some x) = x"

section \<open>The pool state\<close>

text \<open>
  Interface \<open>WorkerPoolConfig\<close>, as the object \<open>this.config\<close> holds it after the
  constructor's spread: a property is a value of its type, or \<open>undefined\<close> (\<open>None\<close>) when
  the override carries the key with that value.
\<close>

record WorkerPoolConfig =
  maxWorkers :: "jsnum option"
  maxMemoryPerWorker :: "jsnum option"
  maxTasksPerWorker :: "jsnum option"
  workerTimeout :: "jsnum option"
  enableMetrics :: "bool option"
  enableCheckpoints :: "bool option"

text \<open>
  An entry of \<open>taskQueue\<close>: \<open>{ id, task, resolve, reject, timeout }\<close>. The closures
  \<open>resolve\<close> and \<open>reject\<close> and the timer handle belong to the promise that \<open>execute\<close>
  created for this id; calling them is recorded in the pool's \<open>settled\<close> and \<open>timers\<close>
  fields under that id.
\<close>

record QueuedTask =
  qid :: string
  task :: WorkerMessage

text \<open>
  Class \<open>TrainingWorkerPool\<close>. The fields \<open>workers\<close> to \<open>isShuttingDown\<close> are the
  private fields of the class (\<open>workers\<close> keeps the keys of the map; the
  \<open>Worker\<close> objects are opaque). The last four record the effects of the methods:
  \<open>timers\<close> the pending \<open>setTimeout\<close> handles by task id, \<open>settled\<close> every call of a
  task's \<open>resolve\<close> (\<open>Inr\<close>) or \<open>reject\<close> (\<open>Inl\<close>) in order, \<open>posted\<close> every
  \<open>worker.postMessage\<close>, \<open>terminated\<close> every \<open>worker.terminate()\<close>.
\<close>

record TrainingWorkerPool =
  workers :: "string list"
  available :: "string list"
  busy :: "string list"
  taskQueue :: "QueuedTask list"
  config :: WorkerPoolConfig
  metrics :: "(string \<times> WorkerMetrics) list"
  isShuttingDown :: bool
  timers :: "string list"
  settled :: "(string \<times> (thrown + jsval)) list"
  posted :: "(string \<times> WorkerMessage) list"
  terminated :: "string list"

text \<open>
  \<open>createWorker\<close>. The id \<open>worker-${Date.now()}-${random}\<close> and the clock are inputs.
\<close>

definition createWorker :: "string \<Rightarrow> int \<Rightarrow> TrainingWorkerPool \<Rightarrow> TrainingWorkerPool" where
  "createWorker wid now s =
     s\<lparr> metrics := map_set wid
           \<lparr> workerId = wid, cpuUsage = 0, memoryUsage = 0, messageLatency = 0,
             tasksCompleted = 0, tasksFailed = 0, uptime = 0, lastActivity = now \<rparr>
           (metrics s),
        workers := set_add wid (workers s),
        available := set_add wid (available s) \<rparr>"

text \<open>
  \<open>processQueue\<close>: one task, one worker. The task is taken off \<open>taskQueue\<close> by
  \<open>shift()\<close> before the worker is looked at; an empty worker id is falsy.
\<close>

definition processQueue :: "TrainingWorkerPool \<Rightarrow> TrainingWorkerPool" where
  "processQueue s =
     (case (taskQueue s, available s) of
        (t # rest, wid # _) \<Rightarrow>
          (let s1 = s\<lparr> taskQueue := rest \<rparr> in
           if wid = [] then s1
           else
             (let s2 = s1\<lparr> available := set_delete wid (available s1),
                           busy := set_add wid (busy s1) \<rparr>
              in if wid \<in> set (workers s2)
                 then s2\<lparr> posted := posted s2 @ [(wid, task t)] \<rparr>
                 else s2))
      | _ \<Rightarrow> s)"

section \<open>Submitting a task\<close>

text \<open>
  The Task Executor: the functions \<open>performRealTraining\<close>, \<open>evaluateModel\<close>,
  \<open>predictText\<close> and \<open>cleanup\<close>, whose bodies (TensorFlow) are outside the model. Each
  either returns a result or throws.
\<close>

record Executor =
  performRealTraining :: "jsval \<Rightarrow> thrown + jsval"
  evaluateModel :: "jsval \<Rightarrow> thrown + jsval"
  predictText :: "jsval \<Rightarrow> thrown + jsval"
  cleanup :: "thrown option"

text \<open>\<open>executeInMainThread\<close>: the fallback path. \<open>Inl\<close> is the rejection of the promise.\<close>

fun executeInMainThread :: "Executor \<Rightarrow> WorkerMessageType \<Rightarrow> jsval \<Rightarrow> thrown + jsval" where
  "executeInMainThread ex TRAIN d = performRealTraining ex d"
| "executeInMainThread ex EVALUATE d = evaluateModel ex d"
| "executeInMainThread ex PREDICT d = predictText ex d"
| "executeInMainThread ex ty d = Inl (NewError (''Unknown task type: '' @ type_string ty))"

text \<open>
  \<open>t.task.priority\<close> in \<open>execute\<close>: the property \<open>priority\<close> of a \<open>WorkerMessage\<close>.
  The interface has the properties \<open>id\<close>, \<open>type\<close>, \<open>data\<close> and \<open>timestamp\<close>, and the
  object literal in \<open>execute\<close> sets exactly these, so the read gives \<open>undefined\<close>
  (\<open>None\<close>). \<open>js_lt\<close> is \<open><\<close> with a number on the right: \<open>undefined\<close> converts to
  \<open>NaN\<close>, and every comparison with \<open>NaN\<close> is false.
\<close>

definition priority_prop :: "WorkerMessage \<Rightarrow> int option" where
  "priority_prop m = None"

fun js_lt :: "int option \<Rightarrow> int \<Rightarrow> bool" where
  "js_lt None b = False"
| "js_lt (Some a) b = (a < b)"

text \<open>
  What \<open>execute\<close> hands back: a promise already settled (fallback path, or the throw of
  the \<open>async\<close> function while shutting down), or the pending promise of a queued task.
\<close>

datatype exec_result = Settled "thrown + jsval" | Pending string

text \<open>
  \<open>execute(type, data, priority = 0)\<close>. \<open>use_workers\<close> is
  \<open>process.env.USE_WORKERS === 'true'\<close> at the time of the call; the task id and the
  clock are inputs.
\<close>

definition execute ::
  "bool \<Rightarrow> Executor \<Rightarrow> WorkerMessageType \<Rightarrow> jsval \<Rightarrow> int \<Rightarrow> string \<Rightarrow> int \<Rightarrow>
   TrainingWorkerPool \<Rightarrow> exec_result \<times> TrainingWorkerPool" where
  "execute use_workers ex ty d priority taskId now s =
     (if \<not> use_workers then (Settled (executeInMainThread ex ty d), s)
      else if isShuttingDown s
      then (Settled (Inl (NewError ''Worker pool is shutting down'')), s)
      else
        (let message = \<lparr> wm_id = taskId, wm_type = ty, wm_data = d, wm_timestamp = now \<rparr>;
             s1 = s\<lparr> timers := timers s @ [taskId] \<rparr>;
             entry = \<lparr> qid = taskId, task = message \<rparr>;
             insertIndex = findIndex (\<lambda>t. js_lt (priority_prop (task t)) priority) (taskQueue s1);
             s2 = (if insertIndex = - 1
                   then s1\<lparr> taskQueue := taskQueue s1 @ [entry] \<rparr>
                   else s1\<lparr> taskQueue := splice_insert insertIndex entry (taskQueue s1) \<rparr>)
         in (Pending taskId, processQueue s2)))"

text \<open>The callback of the task's \<open>setTimeout\<close>, run when the timer fires.\<close>

definition timeout_handler :: "string \<Rightarrow> TrainingWorkerPool \<Rightarrow> TrainingWorkerPool" where
  "timeout_handler taskId s =
     (let s0 = s\<lparr> timers := remove1 taskId (timers s) \<rparr>;
          taskIndex = findIndex (\<lambda>t. qid t = taskId) (taskQueue s0)
      in if taskIndex \<noteq> - 1
         then s0\<lparr> taskQueue := splice_remove taskIndex (taskQueue s0),
                  settled := settled s0 @ [(taskId, Inl (NewError ''Task timeout''))] \<rparr>
         else s0)"

section \<open>Messages from a worker\<close>

text \<open>
  \<open>handleWorkerMessage(workerId, message)\<close>, with \<open>Date.now()\<close> as \<open>now\<close>. The metrics
  object is mutated in place, so each write goes to the map's entry. In the
  \<open>'metrics'\<close> branch the spread \<open>{ ...metrics, ...message.data }\<close> takes every
  property from \<open>message.data\<close>, which has them all.
\<close>

definition touch_metrics :: "string \<Rightarrow> int \<Rightarrow> int \<Rightarrow> TrainingWorkerPool \<Rightarrow> TrainingWorkerPool" where
  "touch_metrics wid now ts s =
     (case map_of (metrics s) wid of
        None \<Rightarrow> s
      | Some m \<Rightarrow>
          s\<lparr> metrics := map_set wid (m\<lparr> lastActivity := now, messageLatency := now - ts \<rparr>)
                          (metrics s) \<rparr>)"

definition count_task :: "string \<Rightarrow> bool \<Rightarrow> TrainingWorkerPool \<Rightarrow> TrainingWorkerPool" where
  "count_task wid ok s =
     (case map_of (metrics s) wid of
        None \<Rightarrow> s
      | Some m \<Rightarrow>
          s\<lparr> metrics := map_set wid
                (if ok then m\<lparr> tasksCompleted := tasksCompleted m + 1 \<rparr>
                 else m\<lparr> tasksFailed := tasksFailed m + 1 \<rparr>)
                (metrics s) \<rparr>)"

definition complete_task :: "string \<Rightarrow> WorkerOutMessage \<Rightarrow> TrainingWorkerPool \<Rightarrow> TrainingWorkerPool" where
  "complete_task wid message s1 =
     (let taskIndex = findIndex (\<lambda>t. qid t = out_id message) (taskQueue s1)
      in if taskIndex \<noteq> - 1
         then
           (let t = taskQueue s1 ! nat taskIndex;
                s2 = s1\<lparr> timers := remove1 (qid t) (timers s1),
                          taskQueue := splice_remove taskIndex (taskQueue s1) \<rparr>;
                s3 = s2\<lparr> available := set_add wid (available s2),
                          busy := set_delete wid (busy s2) \<rparr>;
                s4 = count_task wid (out_success message) s3;
                s5 = s4\<lparr> settled := settled s4 @
                          [(qid t, if out_success message then Inr (out_data message)
                                   else Inl (NewError (error_or_unknown (out_error message))))] \<rparr>
            in processQueue s5)
         else s1)"

fun handleWorkerMessage ::
  "string \<Rightarrow> WorkerOutMessage \<Rightarrow> int \<Rightarrow> TrainingWorkerPool \<Rightarrow> TrainingWorkerPool" where
  "handleWorkerMessage wid (ProgressUpdate i PROGRESS d ts) now s = touch_metrics wid now ts s"
| "handleWorkerMessage wid (MetricsUpdate i d ts) now s =
     (let s1 = touch_metrics wid now ts s in s1\<lparr> metrics := map_set wid d (metrics s1) \<rparr>)"
| "handleWorkerMessage wid message now s =
     complete_task wid message (touch_metrics wid now (out_timestamp message) s)"

section \<open>Crashes, shutdown, status\<close>

text \<open>\<open>replaceWorker\<close> and \<open>handleWorkerError\<close>; the new worker's id is an input.\<close>

definition replaceWorker :: "string \<Rightarrow> string \<Rightarrow> int \<Rightarrow> TrainingWorkerPool \<Rightarrow> TrainingWorkerPool" where
  "replaceWorker wid newId now s =
     createWorker newId now
       (if wid \<in> set (workers s)
        then s\<lparr> terminated := terminated s @ [wid],
                 workers := set_delete wid (workers s),
                 metrics := map_delete wid (metrics s) \<rparr>
        else s)"

definition handleWorkerError :: "string \<Rightarrow> string \<Rightarrow> int \<Rightarrow> TrainingWorkerPool \<Rightarrow> TrainingWorkerPool" where
  "handleWorkerError wid newId now s =
     (let s1 = count_task wid False s;
          s2 = s1\<lparr> available := set_delete wid (available s1),
                    busy := set_delete wid (busy s1) \<rparr>
      in replaceWorker wid newId now s2)"

text \<open>
  What the event loop can run on the pool between two steps of a method: a task's timer
  firing (only while it is pending), and the three listeners \<open>createWorker\<close> installs
  on a worker.
\<close>

datatype event =
    TimerFires string
  | OnMessage string WorkerOutMessage int
  | OnError string string int
  | OnExit string string int

fun pool_event :: "event \<Rightarrow> TrainingWorkerPool \<Rightarrow> TrainingWorkerPool" where
  "pool_event (TimerFires taskId) s =
     (if taskId \<in> set (timers s) then timeout_handler taskId s else s)"
| "pool_event (OnMessage wid message now) s = handleWorkerMessage wid message now s"
| "pool_event (OnError wid newId now) s = handleWorkerError wid newId now s"
| "pool_event (OnExit wid newId now) s = replaceWorker wid newId now s"

definition run_events :: "event list \<Rightarrow> TrainingWorkerPool \<Rightarrow> TrainingWorkerPool" where
  "run_events evs s = fold pool_event evs s"





text \<open>
  The constructor. \<open>env\<close> holds the values read from \<open>process.env\<close> (the same reads as
  \<open>getWorkerEnvironment\<close>: \<open>parseInt\<close> for the three numbers), \<open>override\<close> the optional
  \<open>Partial<WorkerPoolConfig>\<close> argument: for each key, \<open>None\<close> when the key is absent and
  \<open>Some v\<close> when it is present, where \<open>v\<close> itself may be \<open>undefined\<close> (\<open>None\<close>). The
  spread \<open>{ ...defaults, ...config }\<close> takes every key the override has, whatever its
  value. \<open>idgen i\<close> is the id generated for the \<open>i\<close>-th worker.
\<close>

record WorkerEnvironment =
  USE_WORKERS :: bool
  MAX_WORKERS :: jsnum
  WORKER_MEMORY_LIMIT :: jsnum
  WORKER_TIMEOUT :: jsnum
  ENABLE_METRICS :: bool
  ENABLE_CHECKPOINTS :: bool
  LOG_LEVEL :: string

record PartialConfig =
  p_maxWorkers :: "jsnum option option"
  p_maxMemoryPerWorker :: "jsnum option option"
  p_maxTasksPerWorker :: "jsnum option option"
  p_workerTimeout :: "jsnum option option"
  p_enableMetrics :: "bool option option"
  p_enableCheckpoints :: "bool option option"

definition no_override :: PartialConfig where
  "no_override =
     \<lparr> p_maxWorkers = None, p_maxMemoryPerWorker = None, p_maxTasksPerWorker = None,
       p_workerTimeout = None, p_enableMetrics = None, p_enableCheckpoints = None \<rparr>"

definition merge_config :: "WorkerEnvironment \<Rightarrow> PartialConfig \<Rightarrow> WorkerPoolConfig" where
  "merge_config env override =
     \<lparr> maxWorkers =
         (case p_maxWorkers override of None \<Rightarrow> Some (MAX_WORKERS env) | Some v \<Rightarrow> v),
       maxMemoryPerWorker =
         (case p_maxMemoryPerWorker override of
            None \<Rightarrow> Some (WORKER_MEMORY_LIMIT env) | Some v \<Rightarrow> v),
       maxTasksPerWorker =
         (case p_maxTasksPerWorker override of None \<Rightarrow> Some (Fin 100) | Some v \<Rightarrow> v),
       workerTimeout =
         (case p_workerTimeout override of None \<Rightarrow> Some (WORKER_TIMEOUT env) | Some v \<Rightarrow> v),
       enableMetrics =
         (case p_enableMetrics override of None \<Rightarrow> Some (ENABLE_METRICS env) | Some v \<Rightarrow> v),
       enableCheckpoints =
         (case p_enableCheckpoints override of
            None \<Rightarrow> Some (ENABLE_CHECKPOINTS env) | Some v \<Rightarrow> v) \<rparr>"

text \<open>
  \<open>initializePool\<close>: \<open>for (let i = 0; i < this.config.maxWorkers; i++) createWorker()\<close>.
  The loop need not end (\<open>maxWorkers\<close> may be \<open>Infinity\<close>), so it runs on fuel: one unit
  per call of \<open>createWorker\<close>, and \<open>None\<close> when the fuel is spent with the condition
  still true. The counter \<open>i\<close> is exact.
\<close>

fun initializePool_loop ::
  "nat \<Rightarrow> nat \<Rightarrow> jsnum \<Rightarrow> (nat \<Rightarrow> string) \<Rightarrow> int \<Rightarrow> TrainingWorkerPool \<Rightarrow>
   TrainingWorkerPool option" where
  "initializePool_loop 0 i m idgen now s =
     (if js_less (Fin (real i)) m then None else Some s)"
| "initializePool_loop (Suc fuel) i m idgen now s =
     (if js_less (Fin (real i)) m
      then initializePool_loop fuel (Suc i) m idgen now (createWorker (idgen i) now s)
      else Some s)"

definition initializePool ::
  "nat \<Rightarrow> (nat \<Rightarrow> string) \<Rightarrow> int \<Rightarrow> TrainingWorkerPool \<Rightarrow> TrainingWorkerPool option" where
  "initializePool fuel idgen now s =
     initializePool_loop fuel 0 (to_number (maxWorkers (config s))) idgen now s"

text \<open>
  The constructor has no \<open>throw\<close> and calls no validation; \<open>None\<close> is the loop of
  \<open>initializePool\<close> not ending within the fuel.
\<close>

definition pool_constructor ::
  "nat \<Rightarrow> WorkerEnvironment \<Rightarrow> PartialConfig \<Rightarrow> (nat \<Rightarrow> string) \<Rightarrow> int \<Rightarrow>
   TrainingWorkerPool option" where
  "pool_constructor fuel env override idgen now =
     (let s = \<lparr> workers = [], available = [], busy = [], taskQueue = [],
                config = merge_config env override, metrics = [], isShuttingDown = False,
                timers = [], settled = [], posted = [], terminated = [] \<rparr>
      in if USE_WORKERS env then initializePool fuel idgen now s else Some s)"

section \<open>The worker's message handler\<close>

text \<open>
  The state captured by the closure of \<open>handleWorkerTask\<close>, and its
  \<open>parentPort.on('message', ...)\<close> handler run to completion on one message: the list is
  what the handler itself posts (progress updates sent from inside the executor are not
  listed). \<open>heapMB\<close> is \<open>process.memoryUsage().heapUsed / 1024 / 1024\<close>; every
  \<open>Date.now()\<close> of one run reads \<open>now\<close>. The \<open>stack\<close> of the \<open>WorkerError\<close> is left out.
\<close>

record WorkerState =
  currentTask :: "WorkerMessage option"
  isTraining :: bool
  trainingStartTime :: int
  peakMemoryUsage :: real

text \<open>\<open>currentTask?.id || 'unknown'\<close> in \<open>sendProgressUpdate\<close>: an empty id is falsy.\<close>

definition update_id :: "WorkerMessage \<Rightarrow> string" where
  "update_id message = (if wm_id message = [] then ''unknown'' else wm_id message)"

text \<open>
  What the handler posts once the \<open>switch\<close> has returned a result (\<open>sendResponse(true,
  result)\<close>) or thrown (\<open>sendResponse(false, undefined, message)\<close>, then
  \<open>sendProgressUpdate('error', workerError)\<close>).
\<close>

definition sendResponse :: "WorkerMessage \<Rightarrow> int \<Rightarrow> thrown + jsval \<Rightarrow> WorkerOutMessage list" where
  "sendResponse message now outcome =
     (case outcome of
        Inr result \<Rightarrow> [Response (wm_id message) True result None now]
      | Inl e \<Rightarrow>
          [Response (wm_id message) False JUndefined (Some (thrown_message e)) now,
           ProgressUpdate (update_id message) ERROR
             (JObj [(''code'', JStr ''WORKER_ERROR''), (''message'', JStr (thrown_message e)),
                    (''recoverable'', JBool True), (''timestamp'', JNum (real_of_int now))])
             now])"

fun worker_on_message ::
  "Executor \<Rightarrow> int \<Rightarrow> real \<Rightarrow> WorkerState \<Rightarrow> WorkerMessage \<Rightarrow> WorkerOutMessage list \<times> WorkerState" where
  "worker_on_message ex now heapMB w message =
     (let w0 = w\<lparr> currentTask := Some message \<rparr> in
      case wm_type message of
        TRAIN \<Rightarrow>
          (sendResponse message now (performRealTraining ex (wm_data message)),
           w0\<lparr> isTraining := False, trainingStartTime := now, peakMemoryUsage := 0 \<rparr>)
      | EVALUATE \<Rightarrow> (sendResponse message now (evaluateModel ex (wm_data message)), w0)
      | PREDICT \<Rightarrow> (sendResponse message now (predictText ex (wm_data message)), w0)
      | STOP \<Rightarrow>
          (sendResponse message now
             (Inr (JObj [(''stopped'', JBool True), (''timestamp'', JNum (real_of_int now))])),
           w0\<lparr> isTraining := False \<rparr>)
      | STATUS \<Rightarrow>
          (sendResponse message now
             (Inr (JObj [(''isTraining'', JBool (isTraining w0)),
                         (''currentTask'', JStr (type_string (wm_type message))),
                         (''memoryUsage'', JNum heapMB),
                         (''uptime'', JNum (real_of_int (now - trainingStartTime w0)))])),
           w0)
      | CLEANUP \<Rightarrow>
          (sendResponse message now
             (case cleanup ex of
                Some e \<Rightarrow> Inl e
              | None \<Rightarrow> Inr (JObj [(''cleaned'', JBool True)])),
           w0))"

section \<open>Health, throughput, configuration\<close>

text \<open>
  \<open>checkWorkerHealth\<close> pushes onto the \<open>issues\<close> array it is given and returns whether
  the array is empty afterwards. The three issue strings are the three constructors; the
  first one interpolates the usage and the limit (which may be \<open>undefined\<close>).
\<close>

datatype issue = MemoryExceedsLimit real "jsnum option" | NoActivity | HighErrorRate

definition checkWorkerHealth ::
  "WorkerPoolConfig \<Rightarrow> int \<Rightarrow> WorkerMetrics \<Rightarrow> issue list \<Rightarrow> bool \<times> issue list" where
  "checkWorkerHealth cfg now m issues0 =
     (let i1 = (if js_less (to_number (maxMemoryPerWorker cfg)) (Fin (memoryUsage m))
                then issues0 @ [MemoryExceedsLimit (memoryUsage m) (maxMemoryPerWorker cfg)]
                else issues0);
          i2 = (if now - lastActivity m > 60000 then i1 @ [NoActivity] else i1);
          totalTasks = tasksCompleted m + tasksFailed m;
          i3 = (if totalTasks > 0 \<and> real (tasksFailed m) / real totalTasks > 0.1
                then i2 @ [HighErrorRate] else i2)
      in (length i3 = 0, i3))"

record WorkerHealth =
  hc_workerId :: string
  isHealthy :: bool
  issues :: "issue list"

definition healthCheck :: "int \<Rightarrow> TrainingWorkerPool \<Rightarrow> WorkerHealth list" where
  "healthCheck now s =
     map (\<lambda>(wid, m).
            (let r = checkWorkerHealth (config s) now m []
             in \<lparr> hc_workerId = wid, isHealthy = fst r, issues = snd r \<rparr>))
         (metrics s)"

text \<open>
  \<open>js_div\<close> divides two finite numbers; \<open>js_or_zero\<close> is \<open>x || 0\<close>, where exactly
  \<open>0\<close> and \<open>NaN\<close> are falsy.
\<close>

definition js_div :: "real \<Rightarrow> real \<Rightarrow> jsnum" where
  "js_div a b =
     (if b \<noteq> 0 then Fin (a / b)
      else if a > 0 then PosInf
      else if a < 0 then NegInf
      else NaN)"

fun js_or_zero :: "jsnum \<Rightarrow> jsnum" where
  "js_or_zero NaN = Fin 0"
| "js_or_zero x = x"

record Throughput =
  tasksPerSecond :: jsnum
  averageTaskTime :: jsnum

text \<open>\<open>TrainingWorkerPool.calculateThroughput\<close>, over \<open>this.metrics.values()\<close>.\<close>

definition calculateThroughput :: "WorkerMetrics list \<Rightarrow> Throughput" where
  "calculateThroughput ms =
     (let totalTasks = fold (\<lambda>m a. a + tasksCompleted m) ms 0;
          totalTime = fold (\<lambda>m a. a + uptime m) ms 0
      in \<lparr> tasksPerSecond = js_or_zero (js_div (real totalTasks) (real_of_int totalTime / 1000)),
            averageTaskTime = js_or_zero (js_div (real_of_int totalTime) (real totalTasks)) \<rparr>)"

text \<open>
  The throughput that \<open>WorkerPerformanceMonitor.calculateDerivedMetrics\<close> stores, over
  \<open>this.workerMetrics.values()\<close>.
\<close>

definition calculateDerivedMetrics :: "WorkerMetrics list \<Rightarrow> Throughput" where
  "calculateDerivedMetrics ms =
     (let totalTasks = fold (\<lambda>m a. a + tasksCompleted m) ms 0;
          totalTime = fold (\<lambda>m a. a + uptime m) ms 0
      in \<lparr> tasksPerSecond =
              (if totalTime > 0 then js_div (real totalTasks) (real_of_int totalTime / 1000)
               else Fin 0),
            averageTaskTime =
              (if totalTasks > 0 then js_div (real_of_int totalTime) (real totalTasks)
               else Fin 0) \<rparr>)"



section \<open>Concrete pools and inputs\<close>

text \<open>
  A pool of one worker with workers enabled; one task submitted (dispatched at once);
  two more submitted with priorities 5 and 10 while the worker is busy.
\<close>

definition env_one_worker :: WorkerEnvironment where
  "env_one_worker =
     \<lparr> USE_WORKERS = True, MAX_WORKERS = Fin 1, WORKER_MEMORY_LIMIT = Fin 512,
       WORKER_TIMEOUT = Fin 300000,
       ENABLE_METRICS = True, ENABLE_CHECKPOINTS = True, LOG_LEVEL = ''info'' \<rparr>"

definition echo_executor :: Executor where
  "echo_executor =
     \<lparr> performRealTraining = Inr, evaluateModel = Inr, predictText = Inr, cleanup = None \<rparr>"

definition worker_ids :: "nat \<Rightarrow> string" where
  "worker_ids i = (if i = 0 then ''worker-a'' else ''worker-b'')"

text \<open>What the constructor returns for this environment at time 1000.\<close>

definition pool_one :: TrainingWorkerPool where
  "pool_one =
     \<lparr> workers = [''worker-a''], available = [''worker-a''], busy = [], taskQueue = [],
       config =
         \<lparr> maxWorkers = Some (Fin 1), maxMemoryPerWorker = Some (Fin 512),
           maxTasksPerWorker = Some (Fin 100), workerTimeout = Some (Fin 300000),
           enableMetrics = Some True, enableCheckpoints = Some True \<rparr>,
       metrics =
         [(''worker-a'',
           \<lparr> workerId = ''worker-a'', cpuUsage = 0, memoryUsage = 0, messageLatency = 0,
             tasksCompleted = 0, tasksFailed = 0, uptime = 0, lastActivity = 1000 \<rparr>)],
       isShuttingDown = False, timers = [], settled = [], posted = [], terminated = [] \<rparr>"

definition pool_dispatched :: TrainingWorkerPool where
  "pool_dispatched = snd (execute True echo_executor TRAIN JUndefined 0 ''task-1'' 1001 pool_one)"

definition pool_queued :: TrainingWorkerPool where
  "pool_queued =
     snd (execute True echo_executor TRAIN JUndefined 10 ''task-3'' 1003
       (snd (execute True echo_executor TRAIN JUndefined 5 ''task-2'' 1002 pool_dispatched)))"

text \<open>
  The snapshot a training worker posts from \<open>startMonitoring\<close>: its counters are the
  literal \<open>0\<close>, its \<open>lastActivity\<close> is the worker's clock when it was taken.
\<close>

definition worker_snapshot :: WorkerMetrics where
  "worker_snapshot =
     \<lparr> workerId = ''worker-4711-1001'', cpuUsage = 2, memoryUsage = 150, messageLatency = 994,
       tasksCompleted = 0, tasksFailed = 0, uptime = 994, lastActivity = 1995 \<rparr>"

definition pool_progressed :: TrainingWorkerPool where
  "pool_progressed =
     handleWorkerMessage ''worker-a'' (ProgressUpdate ''task-1'' PROGRESS JUndefined 1990) 2000
       pool_dispatched"

definition pool_counted :: TrainingWorkerPool where
  "pool_counted =
     handleWorkerMessage ''worker-a'' (Response ''task-2'' True JUndefined None 1990) 2000
       pool_queued"

text \<open>The metrics of a worker created by the pool that has completed one task.\<close>

definition fresh_worker_one_task :: "WorkerMetrics list" where
  "fresh_worker_one_task =
     [\<lparr> workerId = ''worker-a'', cpuUsage = 0, memoryUsage = 0, messageLatency = 3,
        tasksCompleted = 1, tasksFailed = 0, uptime = 0, lastActivity = 2000 \<rparr>]"



text \<open>An executor whose training throws a file-system error.\<close>

definition failing_executor :: Executor where
  "failing_executor =
     \<lparr> performRealTraining = (\<lambda>d. Inl (ExecutorThrown ''ENOENT: no such file or directory'')),
       evaluateModel = Inr, predictText = Inr, cleanup = None \<rparr>"

text \<open>A worker over its memory limit, silent for 99 seconds, with 2 failures in 10 tasks.\<close>

definition pool_unhealthy :: TrainingWorkerPool where
  "pool_unhealthy =
     pool_one\<lparr> metrics :=
       [(''worker-a'',
         \<lparr> workerId = ''worker-a'', cpuUsage = 1, memoryUsage = 600, messageLatency = 2,
           tasksCompleted = 8, tasksFailed = 2, uptime = 5000, lastActivity = 1000 \<rparr>)] \<rparr>"

definition idle_worker :: WorkerState where
  "idle_worker =
     \<lparr> currentTask = None, isTraining = False, trainingStartTime = 0, peakMemoryUsage = 0 \<rparr>"

text \<open>The queued pool once \<open>terminate()\<close> has set the flag, and once it has resolved.\<close>

definition pool_draining :: TrainingWorkerPool where
  "pool_draining = pool_queued\<lparr> isShuttingDown := True \<rparr>"



definition override_undefined_workers :: PartialConfig where
  "override_undefined_workers = no_override\<lparr> p_maxWorkers := Some None \<rparr>"

text \<open>The one-worker pool after a Status task has been submitted and dispatched.\<close>

definition pool_status_sent :: TrainingWorkerPool where
  "pool_status_sent =
     snd (execute True echo_executor STATUS JUndefined 0 ''task-1'' 1001 pool_one)"

text \<open>An executor whose \<open>cleanup()\<close> throws.\<close>

definition throwing_cleanup_executor :: Executor where
  "throwing_cleanup_executor =
     \<lparr> performRealTraining = Inr, evaluateModel = Inr, predictText = Inr,
       cleanup = Some (ExecutorThrown ''dispose failed'') \<rparr>"


section \<open>Dispatch, responses and timeouts\<close>

text \<open>Dispatching takes the entry off \<open>taskQueue\<close>.\<close>

lemma processQueue_shifts:
  "taskQueue s = t # rest \<Longrightarrow> available s = wid # ws \<Longrightarrow> taskQueue (processQueue s) = rest"
  by (simp add: processQueue_def Let_def)

text \<open>
  Claim C1 (a worker's Response settles the caller's promise, frees the worker and
  dispatches the next queued task). In the pool of one worker, \<open>task-1\<close> has been posted
  to \<open>worker-a\<close> and \<open>task-2\<close>, \<open>task-3\<close> wait in the queue. When \<open>worker-a\<close> answers
  \<open>task-1\<close> with success, \<open>handleWorkerMessage\<close> looks \<open>task-1\<close> up in \<open>taskQueue\<close>,
  from which \<open>processQueue\<close> removed it at dispatch: no \<open>resolve\<close> or \<open>reject\<close> is
  called, \<open>worker-a\<close> stays busy, and nothing more is posted.
\<close>

theorem response_for_dispatched_task_is_dropped:
  "posted pool_queued =
     [(''worker-a'',
       \<lparr> wm_id = ''task-1'', wm_type = TRAIN, wm_data = JUndefined, wm_timestamp = 1001 \<rparr>)] \<and>
   busy pool_queued = [''worker-a''] \<and>
   map qid (taskQueue pool_queued) = [''task-2'', ''task-3''] \<and>
   settled (handleWorkerMessage ''worker-a''
              (Response ''task-1'' True (JStr ''done'') None 2000) 2001 pool_queued) = [] \<and>
   busy (handleWorkerMessage ''worker-a''
           (Response ''task-1'' True (JStr ''done'') None 2000) 2001 pool_queued) = [''worker-a''] \<and>
   available (handleWorkerMessage ''worker-a''
                (Response ''task-1'' True (JStr ''done'') None 2000) 2001 pool_queued) = [] \<and>
   posted (handleWorkerMessage ''worker-a''
             (Response ''task-1'' True (JStr ''done'') None 2000) 2001 pool_queued)
     = posted pool_queued \<and>
   map qid (taskQueue (handleWorkerMessage ''worker-a''
                         (Response ''task-1'' True (JStr ''done'') None 2000) 2001 pool_queued))
     = [''task-2'', ''task-3'']"
  by code_simp

text \<open>
  Claim C2 (a dispatched task whose worker never answers is rejected with a timeout).
  The timer of the dispatched \<open>task-1\<close> is pending; when it fires, its handler finds no
  entry for \<open>task-1\<close> in \<open>taskQueue\<close> and rejects nothing. The timer of the still queued
  \<open>task-2\<close> does reject with \<open>Task timeout\<close>.
\<close>

theorem timer_of_dispatched_task_rejects_nothing:
  "map (wm_id \<circ> snd) (posted pool_dispatched) = [''task-1''] \<and>
   timers pool_dispatched = [''task-1''] \<and>
   settled (pool_event (TimerFires ''task-1'') pool_dispatched) = [] \<and>
   timers (pool_event (TimerFires ''task-1'') pool_dispatched) = [] \<and>
   settled (pool_event (TimerFires ''task-2'') pool_queued)
     = [(''task-2'', Inl (NewError ''Task timeout''))]"
  by code_simp

text \<open>No entry of the queue ever compares below a new task's priority.\<close>

lemma insertIndex_is_minus_one:
  "findIndex (\<lambda>t. js_lt (priority_prop (task t)) priority) q = - 1"
  by (induction q) (simp_all add: priority_prop_def)

text \<open>
  Claim C3 (a queued task of higher priority is dispatched before one of lower priority).
  \<open>task-2\<close> was submitted with priority 5 and then \<open>task-3\<close> with priority 10, both
  while the only worker was busy. The queue holds them in submission order, and once a
  replacement worker is available \<open>processQueue\<close> posts \<open>task-2\<close>.
\<close>

theorem priority_is_ignored_in_queue:
  "map qid (taskQueue pool_queued) = [''task-2'', ''task-3''] \<and>
   map (wm_id \<circ> snd)
     (posted (processQueue (pool_event (OnExit ''worker-a'' ''worker-b'' 3000) pool_queued)))
     = [''task-1'', ''task-2'']"
  by code_simp

text \<open>
  Claim C4 (completed + failed never decreases, \<open>lastActivity\<close> never decreases).
  \<open>worker-a\<close> trains \<open>task-1\<close>. Its progress message is handled at pool time 2000, its
  metrics snapshot (taken at 1995 on the worker) at 2001: \<open>lastActivity\<close> goes from 2000
  back to 1995. A worker whose counters sum to 1 has them reset to 0 by the same
  snapshot.
\<close>

theorem metrics_message_resets_counters:
  "map (lastActivity \<circ> snd) (metrics pool_progressed) = [2000] \<and>
   map (lastActivity \<circ> snd)
     (metrics (handleWorkerMessage ''worker-a''
                 (MetricsUpdate ''task-1'' worker_snapshot 1995) 2001 pool_progressed))
     = [1995] \<and>
   map (\<lambda>p. tasksCompleted (snd p) + tasksFailed (snd p)) (metrics pool_counted) = [1] \<and>
   map (\<lambda>p. tasksCompleted (snd p) + tasksFailed (snd p))
     (metrics (handleWorkerMessage ''worker-a''
                 (MetricsUpdate ''task-1'' worker_snapshot 1995) 2001 pool_counted))
     = [0]"
  by code_simp

section \<open>Throughput\<close>

text \<open>
  Claim C8 (tasks per second is 0, not infinity or NaN, when the total uptime is zero).
  For a worker with one completed task and uptime 0, the pool's \<open>calculateThroughput\<close>
  gives \<open>Infinity\<close>, which \<open>|| 0\<close> lets through; the monitor's
  \<open>calculateDerivedMetrics\<close> gives 0 on the same metrics.
\<close>

theorem pool_throughput_infinite_at_zero_uptime:
  "tasksPerSecond (calculateThroughput fresh_worker_one_task) = PosInf \<and>
   tasksPerSecond (calculateDerivedMetrics fresh_worker_one_task) = Fin 0"
  by code_simp

section \<open>Construction and validation\<close>

lemma workers_createWorker [simp]: "workers (createWorker w now s) = set_add w (workers s)"
  by (simp add: createWorker_def)

lemma config_createWorker [simp]: "config (createWorker w now s) = config s"
  by (simp add: createWorker_def)















text \<open>The pool of one worker is what the constructor builds.\<close>

lemma pool_one_constructed:
  "pool_constructor 1 env_one_worker no_override worker_ids 1000 = Some pool_one"
  by code_simp

text \<open>
  With the key \<open>maxWorkers\<close> present and \<open>undefined\<close>, the configuration keeps
  \<open>undefined\<close> and no worker is started.
\<close>

lemma undefined_maxWorkers_starts_no_worker:
  "map_option (\<lambda>p. (maxWorkers (config p), workers p))
     (pool_constructor 0 env_one_worker override_undefined_workers worker_ids 1000)
     = Some (None, [])"
  by code_simp

lemma js_less_Fin_right:
  "js_less x (Fin b) = (case x of Fin a \<Rightarrow> a < b | NegInf \<Rightarrow> True | _ \<Rightarrow> False)"
  by (cases x) simp_all







section \<open>Which errors reach the caller\<close>

lemma findIndex_range: "- 1 \<le> findIndex P xs"
  by (induction xs) (auto simp: Let_def)

lemma findIndex_found:
  "findIndex P xs \<noteq> - 1 \<Longrightarrow>
     nat (findIndex P xs) < length xs \<and> P (xs ! nat (findIndex P xs))"
proof (induction xs)
  case Nil
  then show ?case by simp
next
  case (Cons x xs)
  show ?case
  proof (cases "P x")
    case True
    then show ?thesis by simp
  next
    case False
    with Cons.prems have ne: "findIndex P xs \<noteq> - 1"
      by (auto simp: Let_def split: if_splits)
    have ge: "0 \<le> findIndex P xs"
      using ne findIndex_range [of P xs] by linarith
    have step: "findIndex P (x # xs) = findIndex P xs + 1"
      using False ne by (simp add: Let_def)
    have "nat (findIndex P xs + 1) = Suc (nat (findIndex P xs))"
      using ge by simp
    with Cons.IH [OF ne] step show ?thesis by simp
  qed
qed

lemma settled_processQueue [simp]: "settled (processQueue s) = settled s"
  by (simp add: processQueue_def Let_def split: list.splits)

lemma isShuttingDown_processQueue [simp]: "isShuttingDown (processQueue s) = isShuttingDown s"
  by (simp add: processQueue_def Let_def split: list.splits)

lemma touch_metrics_fields [simp]:
  "settled (touch_metrics wid now ts s) = settled s"
  "taskQueue (touch_metrics wid now ts s) = taskQueue s"
  "isShuttingDown (touch_metrics wid now ts s) = isShuttingDown s"
  by (simp_all add: touch_metrics_def split: option.splits)

lemma count_task_fields [simp]:
  "settled (count_task wid ok s) = settled s"
  "isShuttingDown (count_task wid ok s) = isShuttingDown s"
  by (simp_all add: count_task_def split: option.splits)

text \<open>A message whose id has no entry in \<open>taskQueue\<close> completes nothing.\<close>

lemma complete_task_no_entry:
  "findIndex (\<lambda>t. qid t = out_id message) (taskQueue s) = - 1 \<Longrightarrow>
     complete_task wid message s = s"
  by (simp add: complete_task_def)

lemma settled_complete_task:
  assumes "findIndex (\<lambda>t. qid t = out_id message) (taskQueue s) \<noteq> - 1"
  shows "settled (complete_task wid message s) =
     settled s @ [(out_id message,
                   if out_success message then Inr (out_data message)
                   else Inl (NewError (error_or_unknown (out_error message))))]"
proof -
  have "qid (taskQueue s ! nat (findIndex (\<lambda>t. qid t = out_id message) (taskQueue s)))
      = out_id message"
    using findIndex_found [OF assms] by simp
  then show ?thesis using assms by (simp add: complete_task_def Let_def)
qed

lemma execute_shutting_down:
  "isShuttingDown s \<Longrightarrow>
     execute True ex ty d priority taskId now s
       = (Settled (Inl (NewError ''Worker pool is shutting down'')), s)"
  by (simp add: execute_def)

text \<open>
  Claim C6, as the code has it. With workers disabled, \<open>execute\<close> settles with exactly
  what \<open>executeInMainThread\<close> gives: for Train, Evaluate and Predict the executor's own
  result or the very value it threw. With workers enabled and the pool shutting down it
  rejects with \<open>Error('Worker pool is shutting down')\<close>. In a worker, the executor's
  result is sent as a successful Response, and a value it throws as a Response with
  \<open>success = false\<close> and the value's message, followed by an \<open>error\<close> update. A
  Response whose id has an entry in \<open>taskQueue\<close> settles that entry with the data, or
  with \<open>new Error(message.error || 'Unknown error')\<close>.
\<close>

theorem executor_errors_by_path:
  "execute False ex ty d priority taskId now s = (Settled (executeInMainThread ex ty d), s) \<and>
   executeInMainThread ex TRAIN d = performRealTraining ex d \<and>
   executeInMainThread ex EVALUATE d = evaluateModel ex d \<and>
   executeInMainThread ex PREDICT d = predictText ex d \<and>
   (isShuttingDown s \<longrightarrow>
      execute True ex ty d priority taskId now s
        = (Settled (Inl (NewError ''Worker pool is shutting down'')), s)) \<and>
   (ty = TRAIN \<or> ty = EVALUATE \<or> ty = PREDICT \<longrightarrow>
      fst (worker_on_message ex now' heapMB w
             \<lparr> wm_id = taskId, wm_type = ty, wm_data = d, wm_timestamp = ts \<rparr>)
        = (case executeInMainThread ex ty d of
             Inr r \<Rightarrow> [Response taskId True r None now']
           | Inl e \<Rightarrow>
               [Response taskId False JUndefined (Some (thrown_message e)) now',
                ProgressUpdate (if taskId = [] then ''unknown'' else taskId) ERROR
                  (JObj [(''code'', JStr ''WORKER_ERROR''),
                         (''message'', JStr (thrown_message e)),
                         (''recoverable'', JBool True),
                         (''timestamp'', JNum (real_of_int now'))])
                  now'])) \<and>
   (findIndex (\<lambda>t. qid t = i) (taskQueue s) \<noteq> - 1 \<longrightarrow>
      settled (handleWorkerMessage wid (Response i ok r err ts) now s)
        = settled s @ [(i, if ok then Inr r else Inl (NewError (error_or_unknown err)))])"
proof -
  have a: "execute False ex ty d priority taskId now s = (Settled (executeInMainThread ex ty d), s)"
    by (simp add: execute_def)
  have b: "isShuttingDown s \<longrightarrow>
      execute True ex ty d priority taskId now s
        = (Settled (Inl (NewError ''Worker pool is shutting down'')), s)"
    by (simp add: execute_shutting_down)
  have c: "ty = TRAIN \<or> ty = EVALUATE \<or> ty = PREDICT \<longrightarrow>
      fst (worker_on_message ex now' heapMB w
             \<lparr> wm_id = taskId, wm_type = ty, wm_data = d, wm_timestamp = ts \<rparr>)
        = (case executeInMainThread ex ty d of
             Inr r \<Rightarrow> [Response taskId True r None now']
           | Inl e \<Rightarrow>
               [Response taskId False JUndefined (Some (thrown_message e)) now',
                ProgressUpdate (if taskId = [] then ''unknown'' else taskId) ERROR
                  (JObj [(''code'', JStr ''WORKER_ERROR''),
                         (''message'', JStr (thrown_message e)),
                         (''recoverable'', JBool True),
                         (''timestamp'', JNum (real_of_int now'))])
                  now'])"
    by (auto simp: sendResponse_def update_id_def split: sum.splits)
  have e: "findIndex (\<lambda>t. qid t = i) (taskQueue s) \<noteq> - 1 \<longrightarrow>
      settled (handleWorkerMessage wid (Response i ok r err ts) now s)
        = settled s @ [(i, if ok then Inr r else Inl (NewError (error_or_unknown err)))]"
    using settled_complete_task [of "Response i ok r err ts" "touch_metrics wid now ts s" wid]
    by simp
  from a b c e show ?thesis by simp
qed

text \<open>
  The statement above at a concrete input: the pool is draining with \<open>task-2\<close> queued,
  the executor's training throws.
\<close>

theorem executor_errors_by_path_witness:
  "isShuttingDown pool_draining \<and>
   findIndex (\<lambda>t. qid t = ''task-2'') (taskQueue pool_draining) \<noteq> - 1 \<and>
   execute False failing_executor TRAIN JUndefined 0 ''task-4'' 1004 pool_draining
     = (Settled (Inl (ExecutorThrown ''ENOENT: no such file or directory'')), pool_draining) \<and>
   execute True failing_executor TRAIN JUndefined 0 ''task-4'' 1004 pool_draining
     = (Settled (Inl (NewError ''Worker pool is shutting down'')), pool_draining) \<and>
   fst (worker_on_message failing_executor 1500 80 idle_worker
          \<lparr> wm_id = ''task-4'', wm_type = TRAIN, wm_data = JUndefined, wm_timestamp = 1400 \<rparr>)
     = [Response ''task-4'' False JUndefined (Some ''ENOENT: no such file or directory'') 1500,
        ProgressUpdate ''task-4'' ERROR
          (JObj [(''code'', JStr ''WORKER_ERROR''),
                 (''message'', JStr ''ENOENT: no such file or directory''),
                 (''recoverable'', JBool True), (''timestamp'', JNum 1500)])
          1500] \<and>
   settled (handleWorkerMessage ''worker-a''
              (Response ''task-2'' False JUndefined (Some ''boom'') 1400) 1004 pool_draining)
     = [(''task-2'', Inl (NewError ''boom''))]"
proof -
  have h1: "isShuttingDown pool_draining" by code_simp
  have h2: "findIndex (\<lambda>t. qid t = ''task-2'') (taskQueue pool_draining) \<noteq> - 1" by code_simp
  have s0: "settled pool_draining = []" by code_simp
  have ex: "executeInMainThread failing_executor TRAIN JUndefined
      = Inl (ExecutorThrown ''ENOENT: no such file or directory'')"
    by (simp add: failing_executor_def)
  note t = executor_errors_by_path [where s = pool_draining and ex = failing_executor
      and ty = TRAIN and d = JUndefined and priority = 0 and taskId = "''task-4''"
      and now = 1004 and now' = 1500 and heapMB = 80 and w = idle_worker and ts = 1400
      and i = "''task-2''" and wid = "''worker-a''" and ok = False and r = JUndefined
      and err = "Some ''boom''"]
  show ?thesis using t h1 h2 s0 ex by simp
qed

text \<open>
  Claim C6 as stated fails on the fallback path: the value thrown by the executor's
  training reaches the caller of \<open>execute\<close> as it is.
\<close>

theorem fallback_propagates_executor_exception:
  "execute False failing_executor TRAIN JUndefined 0 ''task-1'' 1001 pool_one
     = (Settled (Inl (ExecutorThrown ''ENOENT: no such file or directory'')), pool_one)"
  by code_simp

section \<open>Shutdown\<close>

lemma isShuttingDown_createWorker [simp]:
  "isShuttingDown (createWorker w now s) = isShuttingDown s"
  by (simp add: createWorker_def)

lemma isShuttingDown_complete_task [simp]:
  "isShuttingDown (complete_task wid message s) = isShuttingDown s"
  by (simp add: complete_task_def Let_def)

lemma isShuttingDown_handleWorkerMessage [simp]:
  "isShuttingDown (handleWorkerMessage wid message now s) = isShuttingDown s"
  by (cases "(wid, message, now, s)" rule: handleWorkerMessage.cases) (simp_all add: Let_def)

lemma isShuttingDown_timeout_handler [simp]:
  "isShuttingDown (timeout_handler taskId s) = isShuttingDown s"
  by (simp add: timeout_handler_def Let_def)

lemma isShuttingDown_replaceWorker [simp]:
  "isShuttingDown (replaceWorker wid newId now s) = isShuttingDown s"
  by (simp add: replaceWorker_def)

lemma isShuttingDown_handleWorkerError [simp]:
  "isShuttingDown (handleWorkerError wid newId now s) = isShuttingDown s"
  by (simp add: handleWorkerError_def Let_def)

lemma isShuttingDown_pool_event [simp]: "isShuttingDown (pool_event ev s) = isShuttingDown s"
  by (cases ev) simp_all

text \<open>Nothing the event loop runs clears the flag.\<close>

lemma isShuttingDown_run_events [simp]: "isShuttingDown (run_events evs s) = isShuttingDown s"
  unfolding run_events_def by (induction evs arbitrary: s) simp_all









section \<open>Health check\<close>

lemma ratio_over_tenth:
  fixes c f :: nat
  shows "(c + f > 0 \<and> real f / real (c + f) > 0.1) = (c + f < 10 * f)"
proof (cases "c + f > 0")
  case True
  then have pos: "real (c + f) > 0"
    by (simp only: of_nat_0_less_iff)
  have "(real f / real (c + f) > 0.1) = (0.1 * real (c + f) < real f)"
    using pos by (simp only: pos_less_divide_eq)
  also have "\<dots> = (real (c + f) < real (10 * f))"
    by (simp add: mult.commute)
  also have "\<dots> = (c + f < 10 * f)"
    by (simp only: of_nat_less_iff)
  finally have "(real f / real (c + f) > 0.1) = (c + f < 10 * f)" .
  with True show ?thesis by blast
next
  case False
  then show ?thesis by simp
qed

lemma checkWorkerHealth_issues:
  "snd (checkWorkerHealth cfg now m []) =
     (if (case to_number (maxMemoryPerWorker cfg) of
            Fin l \<Rightarrow> l < memoryUsage m | NegInf \<Rightarrow> True | _ \<Rightarrow> False)
      then [MemoryExceedsLimit (memoryUsage m) (maxMemoryPerWorker cfg)] else []) @
     (if now - lastActivity m > 60000 then [NoActivity] else []) @
     (if tasksCompleted m + tasksFailed m < 10 * tasksFailed m then [HighErrorRate] else [])"
  unfolding checkWorkerHealth_def Let_def snd_conv ratio_over_tenth js_less_Fin_right by simp

lemma checkWorkerHealth_flag:
  "fst (checkWorkerHealth cfg now m []) = (snd (checkWorkerHealth cfg now m []) = [])"
  by (simp add: checkWorkerHealth_def Let_def)

text \<open>
  Claim C9. \<open>healthCheck\<close> reports one entry per worker with metrics, in order. The
  entry is healthy if and only if its issue list is empty, and the list holds the memory
  issue exactly when the memory usage exceeds the configured limit (a limit that is
  \<open>NaN\<close> or \<open>undefined\<close> is exceeded by nothing), the activity issue
  exactly when the last activity is more than 60000 ms ago, the error-rate issue exactly
  when there is at least one completed-or-failed task and the failures exceed a tenth of
  that count, and nothing else.
\<close>

theorem healthCheck_healthy_iff_no_issue:
  assumes "i < length (metrics s)"
  shows "length (healthCheck now s) = length (metrics s) \<and>
     hc_workerId (healthCheck now s ! i) = fst (metrics s ! i) \<and>
     isHealthy (healthCheck now s ! i) = (issues (healthCheck now s ! i) = []) \<and>
     (MemoryExceedsLimit (memoryUsage (snd (metrics s ! i))) (maxMemoryPerWorker (config s))
          \<in> set (issues (healthCheck now s ! i)))
       = (case to_number (maxMemoryPerWorker (config s)) of
            Fin l \<Rightarrow> l < memoryUsage (snd (metrics s ! i))
          | NegInf \<Rightarrow> True
          | _ \<Rightarrow> False) \<and>
     (NoActivity \<in> set (issues (healthCheck now s ! i)))
       = (now - lastActivity (snd (metrics s ! i)) > 60000) \<and>
     (HighErrorRate \<in> set (issues (healthCheck now s ! i)))
       = (tasksCompleted (snd (metrics s ! i)) + tasksFailed (snd (metrics s ! i)) \<ge> 1 \<and>
          10 * tasksFailed (snd (metrics s ! i))
            > tasksCompleted (snd (metrics s ! i)) + tasksFailed (snd (metrics s ! i))) \<and>
     set (issues (healthCheck now s ! i)) \<subseteq>
       {MemoryExceedsLimit (memoryUsage (snd (metrics s ! i))) (maxMemoryPerWorker (config s)),
        NoActivity, HighErrorRate}"
proof -
  obtain wid m where wm: "metrics s ! i = (wid, m)" by (cases "metrics s ! i")
  have h: "healthCheck now s ! i =
      \<lparr> hc_workerId = wid, isHealthy = fst (checkWorkerHealth (config s) now m []),
        issues = snd (checkWorkerHealth (config s) now m []) \<rparr>"
    using assms wm by (simp add: healthCheck_def Let_def)
  show ?thesis
    unfolding h wm snd_conv fst_conv
    by (auto simp: healthCheck_def checkWorkerHealth_flag checkWorkerHealth_issues)
qed

text \<open>
  The statement above at a concrete input: a worker over its memory limit, silent for 99
  seconds and with 2 failures in 10 tasks has all three issues and is not healthy.
\<close>

theorem healthCheck_healthy_iff_no_issue_witness:
  "(0::nat) < length (metrics pool_unhealthy) \<and>
   length (healthCheck 100000 pool_unhealthy) = 1 \<and>
   hc_workerId (healthCheck 100000 pool_unhealthy ! 0) = ''worker-a'' \<and>
   MemoryExceedsLimit 600 (Some (Fin 512)) \<in> set (issues (healthCheck 100000 pool_unhealthy ! 0)) \<and>
   NoActivity \<in> set (issues (healthCheck 100000 pool_unhealthy ! 0)) \<and>
   HighErrorRate \<in> set (issues (healthCheck 100000 pool_unhealthy ! 0)) \<and>
   \<not> isHealthy (healthCheck 100000 pool_unhealthy ! 0)"
proof -
  have h: "(0::nat) < length (metrics pool_unhealthy)" by code_simp
  have m: "metrics pool_unhealthy ! 0 =
      (''worker-a'',
       \<lparr> workerId = ''worker-a'', cpuUsage = 1, memoryUsage = 600, messageLatency = 2,
         tasksCompleted = 8, tasksFailed = 2, uptime = 5000, lastActivity = 1000 \<rparr>)"
    by (simp add: pool_unhealthy_def)
  have c: "maxMemoryPerWorker (config pool_unhealthy) = Some (Fin 512)" by code_simp
  have l: "length (metrics pool_unhealthy) = 1" by (simp add: pool_unhealthy_def)
  note t = healthCheck_healthy_iff_no_issue [OF h, of 100000]
  from t have e: "isHealthy (healthCheck 100000 pool_unhealthy ! 0)
      = (issues (healthCheck 100000 pool_unhealthy ! 0) = [])"
    by blast
  from t have n: "NoActivity \<in> set (issues (healthCheck 100000 pool_unhealthy ! 0))"
    unfolding m by simp
  from n have "issues (healthCheck 100000 pool_unhealthy ! 0) \<noteq> []" by auto
  with e have u: "\<not> isHealthy (healthCheck 100000 pool_unhealthy ! 0)" by simp
  show ?thesis using t h u unfolding m c l by simp
qed

section \<open>Control kinds on the fallback path\<close>

text \<open>
  Claim C10, as the code has it. With workers disabled, \<open>execute\<close> of a Stop, Status or
  Cleanup task rejects with \<open>Error('Unknown task type: <kind>')\<close> and leaves the pool
  untouched. A worker that is sent a task of the same kind posts a successful Response
  for Stop and for Status; for Cleanup it posts a successful Response when \<open>cleanup()\<close>
  returns, and a Response with \<open>success = false\<close> and the thrown message (followed by an
  \<open>error\<close> update) when \<open>cleanup()\<close> throws.
\<close>

theorem fallback_rejects_control_kinds:
  assumes "ty = STOP \<or> ty = STATUS \<or> ty = CLEANUP"
  shows "execute False ex ty d priority taskId now s =
      (Settled (Inl (NewError (''Unknown task type: '' @ type_string ty))), s) \<and>
     fst (worker_on_message ex now' heapMB w
            \<lparr> wm_id = taskId, wm_type = STOP, wm_data = d, wm_timestamp = ts \<rparr>)
       = [Response taskId True
            (JObj [(''stopped'', JBool True), (''timestamp'', JNum (real_of_int now'))])
            None now'] \<and>
     fst (worker_on_message ex now' heapMB w
            \<lparr> wm_id = taskId, wm_type = STATUS, wm_data = d, wm_timestamp = ts \<rparr>)
       = [Response taskId True
            (JObj [(''isTraining'', JBool (isTraining w)),
                   (''currentTask'', JStr ''status''),
                   (''memoryUsage'', JNum heapMB),
                   (''uptime'', JNum (real_of_int (now' - trainingStartTime w)))])
            None now'] \<and>
     fst (worker_on_message ex now' heapMB w
            \<lparr> wm_id = taskId, wm_type = CLEANUP, wm_data = d, wm_timestamp = ts \<rparr>)
       = (case cleanup ex of
            None \<Rightarrow> [Response taskId True (JObj [(''cleaned'', JBool True)]) None now']
          | Some e \<Rightarrow>
              [Response taskId False JUndefined (Some (thrown_message e)) now',
               ProgressUpdate (if taskId = [] then ''unknown'' else taskId) ERROR
                 (JObj [(''code'', JStr ''WORKER_ERROR''),
                        (''message'', JStr (thrown_message e)),
                        (''recoverable'', JBool True),
                        (''timestamp'', JNum (real_of_int now'))])
                 now'])"
proof -
  have a: "execute False ex ty d priority taskId now s =
      (Settled (Inl (NewError (''Unknown task type: '' @ type_string ty))), s)"
    using assms by (auto simp: execute_def)
  have b: "fst (worker_on_message ex now' heapMB w
            \<lparr> wm_id = taskId, wm_type = STOP, wm_data = d, wm_timestamp = ts \<rparr>)
       = [Response taskId True
            (JObj [(''stopped'', JBool True), (''timestamp'', JNum (real_of_int now'))])
            None now']"
    by (simp add: sendResponse_def)
  have c: "fst (worker_on_message ex now' heapMB w
            \<lparr> wm_id = taskId, wm_type = STATUS, wm_data = d, wm_timestamp = ts \<rparr>)
       = [Response taskId True
            (JObj [(''isTraining'', JBool (isTraining w)),
                   (''currentTask'', JStr ''status''),
                   (''memoryUsage'', JNum heapMB),
                   (''uptime'', JNum (real_of_int (now' - trainingStartTime w)))])
            None now']"
    by (simp add: sendResponse_def)
  have d: "fst (worker_on_message ex now' heapMB w
            \<lparr> wm_id = taskId, wm_type = CLEANUP, wm_data = d, wm_timestamp = ts \<rparr>)
       = (case cleanup ex of
            None \<Rightarrow> [Response taskId True (JObj [(''cleaned'', JBool True)]) None now']
          | Some e \<Rightarrow>
              [Response taskId False JUndefined (Some (thrown_message e)) now',
               ProgressUpdate (if taskId = [] then ''unknown'' else taskId) ERROR
                 (JObj [(''code'', JStr ''WORKER_ERROR''),
                        (''message'', JStr (thrown_message e)),
                        (''recoverable'', JBool True),
                        (''timestamp'', JNum (real_of_int now'))])
                 now'])"
    by (simp add: sendResponse_def update_id_def split: option.splits)
  from a b c d show ?thesis by blast
qed

text \<open>
  The statement above at a concrete input: a Cleanup task, rejected on the fallback path
  and answered with \<open>{ cleaned: true }\<close> by a worker whose \<open>cleanup()\<close> returns.
\<close>

theorem fallback_rejects_control_kinds_witness:
  "execute False echo_executor CLEANUP JUndefined 0 ''task-1'' 1001 pool_one
     = (Settled (Inl (NewError ''Unknown task type: cleanup'')), pool_one) \<and>
   fst (worker_on_message echo_executor 1500 80 idle_worker
          \<lparr> wm_id = ''task-1'', wm_type = CLEANUP, wm_data = JUndefined, wm_timestamp = 1001 \<rparr>)
     = [Response ''task-1'' True (JObj [(''cleaned'', JBool True)]) None 1500]"
proof -
  have k: "CLEANUP = STOP \<or> CLEANUP = STATUS \<or> CLEANUP = CLEANUP" by simp
  have c: "cleanup echo_executor = None" by (simp add: echo_executor_def)
  note t = fallback_rejects_control_kinds [OF k, where ex = echo_executor and d = JUndefined
      and priority = 0 and taskId = "''task-1''" and now = 1001 and s = pool_one
      and now' = 1500 and heapMB = 80 and w = idle_worker and ts = 1001]
  show ?thesis using t c by simp
qed

text \<open>
  Claim C10 as stated fails in its second half. A worker whose \<open>cleanup()\<close> throws
  answers a Cleanup task with a failed Response. And a Status task submitted with workers
  enabled is dispatched and answered with success by the worker, but the pool finds no
  entry for the answer: the caller's promise stays pending.
\<close>

theorem control_kinds_need_not_succeed_on_worker_path:
  "fst (worker_on_message throwing_cleanup_executor 1500 80 idle_worker
          \<lparr> wm_id = ''task-1'', wm_type = CLEANUP, wm_data = JUndefined, wm_timestamp = 1001 \<rparr>)
     = [Response ''task-1'' False JUndefined (Some ''dispose failed'') 1500,
        ProgressUpdate ''task-1'' ERROR
          (JObj [(''code'', JStr ''WORKER_ERROR''), (''message'', JStr ''dispose failed''),
                 (''recoverable'', JBool True), (''timestamp'', JNum 1500)])
          1500] \<and>
   fst (execute True echo_executor STATUS JUndefined 0 ''task-1'' 1001 pool_one)
     = Pending ''task-1'' \<and>
   posted pool_status_sent =
     [(''worker-a'',
       \<lparr> wm_id = ''task-1'', wm_type = STATUS, wm_data = JUndefined, wm_timestamp = 1001 \<rparr>)] \<and>
   fst (worker_on_message echo_executor 1500 80 idle_worker
          \<lparr> wm_id = ''task-1'', wm_type = STATUS, wm_data = JUndefined, wm_timestamp = 1001 \<rparr>)
     = [Response ''task-1'' True
          (JObj [(''isTraining'', JBool False), (''currentTask'', JStr ''status''),
                 (''memoryUsage'', JNum 80), (''uptime'', JNum 1500)])
          None 1500] \<and>
   settled (handleWorkerMessage ''worker-a''
              (Response ''task-1'' True
                 (JObj [(''isTraining'', JBool False), (''currentTask'', JStr ''status''),
                        (''memoryUsage'', JNum 80), (''uptime'', JNum 1500)])
                 None 1500)
              1501 pool_status_sent) = [] \<and>
   busy (handleWorkerMessage ''worker-a''
           (Response ''task-1'' True
              (JObj [(''isTraining'', JBool False), (''currentTask'', JStr ''status''),
                     (''memoryUsage'', JNum 80), (''uptime'', JNum 1500)])
              None 1500)
           1501 pool_status_sent) = [''worker-a'']"
  by code_simp

end
